theory Spec2Isabelle
  imports Main "HOL-Library.AList"
begin

section \<open>Strings, numbers and regular expressions of the runtime\<close>

text \<open>
  The program is TypeScript. Its strings are modelled as \<^typ>\<open>string\<close>, one
  \<^typ>\<open>char\<close> for each code unit below 256; this covers every text the status
  command prints. Its numbers are modelled as integers together with the value NaN
  (the program's doubles are exact on integers below 2 to the 53, and the model does not
  round beyond them); a timestamp (the result of \<open>toISOString\<close>) is modelled by its
  time value, the milliseconds since the epoch.
\<close>

text \<open>What the record store reports when it refuses a request, and what the program
  throws: a RangeError, a TypeError, or an \<open>Error\<close> whose message is a fixed text,
  followed by the store's message where the program appends one.\<close>

datatype store_error =
    Not_null_violation string
  | Unique_violation string
  | No_single_row
  | Store_failure string

datatype error = RangeError | TypeError | Error string "store_error option"

datatype jsnum = NaN | Num int

fun num_add :: "jsnum \<Rightarrow> jsnum \<Rightarrow> jsnum" where
  "num_add (Num a) (Num b) = Num (a + b)"
| "num_add _ _ = NaN"

fun num_mul :: "jsnum \<Rightarrow> int \<Rightarrow> jsnum" where
  "num_mul (Num a) k = Num (a * k)"
| "num_mul NaN k = NaN"

fun num_le :: "jsnum \<Rightarrow> int \<Rightarrow> bool" where
  "num_le (Num a) k = (a \<le> k)"
| "num_le NaN k = False"

definition is_digit :: "char \<Rightarrow> bool" where
  "is_digit c = (c \<in> set ''0123456789'')"

text \<open>The class \<open>\s\<close>, which is also what \<open>trim\<close> strips: tab, line feed,
  vertical tab, form feed, carriage return, space and the no-break space.\<close>

definition is_space :: "char \<Rightarrow> bool" where
  "is_space c = (c \<in> set [CHR 0x09, CHR 0x0A, CHR 0x0B, CHR 0x0C, CHR 0x0D, CHR 0x20, CHR 0xA0])"

text \<open>The class \<open>.\<close>: every character but the line terminators.\<close>

definition is_any :: "char \<Rightarrow> bool" where
  "is_any c = (c \<noteq> CHR 0x0A \<and> c \<noteq> CHR 0x0D)"

definition trim :: "string \<Rightarrow> string" where
  "trim s = rev (dropWhile is_space (rev (dropWhile is_space s)))"

fun startsWith :: "string \<Rightarrow> string \<Rightarrow> bool" where
  "startsWith s [] = True"
| "startsWith [] (p # ps) = False"
| "startsWith (c # cs) (p # ps) = (c = p \<and> startsWith cs ps)"

fun str_includes :: "string \<Rightarrow> string \<Rightarrow> bool" where
  "str_includes [] sub = (sub = [])"
| "str_includes (c # cs) sub = (startsWith (c # cs) sub \<or> str_includes cs sub)"

text \<open>\<open>s.split(c)\<close> for a one-character separator: never an empty array.\<close>

fun split :: "char \<Rightarrow> string \<Rightarrow> string list" where
  "split c [] = [[]]"
| "split c (x # xs) =
     (if x = c then [] # split c xs
      else (case split c xs of [] \<Rightarrow> [[x]] | p # ps \<Rightarrow> (x # p) # ps))"

fun join :: "string \<Rightarrow> string list \<Rightarrow> string" where
  "join sep [] = []"
| "join sep [p] = p"
| "join sep (p # q # ps) = p @ sep @ join sep (q # ps)"

subsection \<open>parseInt\<close>

definition digit_val :: "char \<Rightarrow> int" where
  "digit_val c =
     (if is_digit c then int (of_char c) - 48
      else if c \<in> set ''abcdef'' then int (of_char c) - 87
      else int (of_char c) - 55)"

definition is_hex :: "char \<Rightarrow> bool" where
  "is_hex c = (c \<in> set ''0123456789abcdefABCDEF'')"

fun radix_val :: "int \<Rightarrow> int \<Rightarrow> string \<Rightarrow> int" where
  "radix_val b acc [] = acc"
| "radix_val b acc (c # cs) = radix_val b (acc * b + digit_val c) cs"

text \<open>\<open>parseInt(s)\<close> with no radix: leading white space, a sign, then either the
  prefix \<open>0x\<close> and hexadecimal digits or decimal digits; NaN when there is no digit.\<close>

definition parse_digits :: "string \<Rightarrow> jsnum" where
  "parse_digits t =
     (if startsWith t ''0x'' \<or> startsWith t ''0X'' then
        (let ds = takeWhile is_hex (drop 2 t)
         in if ds = [] then NaN else Num (radix_val 16 0 ds))
      else
        (let ds = takeWhile is_digit t
         in if ds = [] then NaN else Num (radix_val 10 0 ds)))"

definition parseInt :: "string \<Rightarrow> jsnum" where
  "parseInt s =
     (case dropWhile is_space s of
        [] \<Rightarrow> NaN
      | c # cs \<Rightarrow>
          if c = CHR ''-'' then num_mul (parse_digits cs) (- 1)
          else if c = CHR ''+'' then parse_digits cs
          else parse_digits (c # cs))"

subsection \<open>Regular expressions\<close>

text \<open>
  The regular expressions of the source use literals, character classes, sequence,
  alternation, the greedy quantifiers \<open>?\<close>, \<open>+\<close> and \<open>*\<close>, the lazy \<open>+?\<close>, and
  capturing groups; every \<open>+\<close>, \<open>*\<close> and \<open>+?\<close> is applied to a character class and
  no group stands under a quantifier or an alternative. \<open>matches r s\<close> lists the ways
  \<open>r\<close> matches a prefix of \<open>s\<close>, in the order a backtracking matcher tries them:
  each entry holds the texts of the groups, in order, and the input left.
\<close>

datatype re =
    Lit string
  | Cls "char \<Rightarrow> bool"
  | Seq re re
  | Alt re re
  | Opt re
  | Plus "char \<Rightarrow> bool"
  | Star "char \<Rightarrow> bool"
  | PlusLazy "char \<Rightarrow> bool"
  | Grp re

fun matches :: "re \<Rightarrow> string \<Rightarrow> (string list \<times> string) list" where
  "matches (Lit l) s = (if startsWith s l then [([], drop (length l) s)] else [])"
| "matches (Cls p) s = (case s of [] \<Rightarrow> [] | c # cs \<Rightarrow> if p c then [([], cs)] else [])"
| "matches (Seq a b) s =
     concat (map (\<lambda>(g1, r1). map (\<lambda>(g2, r2). (g1 @ g2, r2)) (matches b r1)) (matches a s))"
| "matches (Alt a b) s = matches a s @ matches b s"
| "matches (Opt a) s = matches a s @ [([], s)]"
| "matches (Plus p) s =
     map (\<lambda>k. ([], drop k s)) (rev [1 ..< Suc (length (takeWhile p s))])"
| "matches (Star p) s =
     map (\<lambda>k. ([], drop k s)) (rev [0 ..< Suc (length (takeWhile p s))])"
| "matches (PlusLazy p) s =
     map (\<lambda>k. ([], drop k s)) [1 ..< Suc (length (takeWhile p s))]"
| "matches (Grp a) s =
     map (\<lambda>(g, r). (take (length s - length r) s # g, r)) (matches a s)"

fun seqs :: "re list \<Rightarrow> re" where
  "seqs [] = Lit []"
| "seqs [r] = r"
| "seqs (r # q # rs) = Seq r (seqs (q # rs))"

text \<open>\<open>s.match(r)\<close> for \<open>r\<close> without the flag \<open>g\<close>: the leftmost match, and at
  that position the first in the matcher's order. The result holds the matched text,
  the groups, and the input after the match; \<open>None\<close> is \<open>null\<close>.\<close>

fun re_match :: "re \<Rightarrow> string \<Rightarrow> (string \<times> string list \<times> string) option" where
  "re_match r [] =
     (case matches r [] of [] \<Rightarrow> None | (g, rest) # _ \<Rightarrow> Some ([], g, rest))"
| "re_match r (c # cs) =
     (case matches r (c # cs) of
        [] \<Rightarrow> re_match r cs
      | (g, rest) # _ \<Rightarrow> Some (take (length (c # cs) - length rest) (c # cs), g, rest))"

text \<open>\<open>s.match(r)\<close> for \<open>r\<close> with the flag \<open>g\<close>: the matched texts, left to right,
  each search starting where the last match ended (one character further after an empty
  match). The empty list is \<open>null\<close>. Every round but the last consumes a character, so
  \<open>length s + 1\<close> rounds are enough.\<close>

fun match_rounds :: "nat \<Rightarrow> re \<Rightarrow> string \<Rightarrow> string list" where
  "match_rounds 0 r s = []"
| "match_rounds (Suc n) r s =
     (case re_match r s of
        None \<Rightarrow> []
      | Some (m0, g, rest) \<Rightarrow>
          m0 # (if m0 = [] then (case rest of [] \<Rightarrow> [] | _ # t \<Rightarrow> match_rounds n r t)
                else match_rounds n r rest))"

definition match_all :: "re \<Rightarrow> string \<Rightarrow> string list" where
  "match_all r s = match_rounds (Suc (length s)) r s"

section \<open>The time parser\<close>

text \<open>\<open>new Date(t).toISOString()\<close>: a RangeError when the time value is NaN or beyond
  8.64e15 milliseconds from the epoch.\<close>

definition toISOString :: "jsnum \<Rightarrow> error + int" where
  "toISOString t =
     (case t of
        NaN \<Rightarrow> Inl RangeError
      | Num v \<Rightarrow> if \<bar>v\<bar> \<le> 8640000000000000 then Inr v else Inl RangeError)"

text \<open>\<open>/(\d+)\s+(second|minute|hour|day)s?\s+ago/\<close>\<close>

definition handshake_re :: re where
  "handshake_re =
     seqs [Grp (Plus is_digit), Plus is_space,
           Grp (Alt (Lit ''second'') (Alt (Lit ''minute'') (Alt (Lit ''hour'') (Lit ''day'')))),
           Opt (Lit ''s''), Plus is_space, Lit ''ago'']"

text \<open>The body of the loop over the matches: the text is matched again for its groups,
  and the value is added in the unit's seconds. Without a match the groups are
  \<open>undefined\<close> and no case of the \<open>switch\<close> applies.\<close>

definition add_clause :: "string \<Rightarrow> jsnum \<Rightarrow> jsnum" where
  "add_clause mt totalSeconds =
     (case re_match handshake_re mt of
        Some (_, [num, unit], _) \<Rightarrow>
          (let v = parseInt num
           in if unit = ''second'' then num_add totalSeconds v
              else if unit = ''minute'' then num_add totalSeconds (num_mul v 60)
              else if unit = ''hour'' then num_add totalSeconds (num_mul v 3600)
              else if unit = ''day'' then num_add totalSeconds (num_mul v 86400)
              else totalSeconds)
      | _ \<Rightarrow> totalSeconds)"

text \<open>\<open>parseHandshakeTime\<close>, the clock reading \<open>now\<close> (milliseconds) made a
  parameter. \<open>Inr None\<close> is \<open>null\<close>.\<close>

definition parseHandshakeTime :: "int \<Rightarrow> string \<Rightarrow> error + int option" where
  "parseHandshakeTime now handshakeText =
     (if str_includes handshakeText ''Never'' \<or> str_includes handshakeText ''never'' then Inr None
      else
        (case match_all handshake_re handshakeText of
           [] \<Rightarrow> Inr None
         | timeMatch \<Rightarrow>
             (let totalSeconds = fold add_clause timeMatch (Num 0)
              in (case toISOString (num_add (Num now) (num_mul (num_mul totalSeconds 1000) (- 1))) of
                    Inl e \<Rightarrow> Inl e
                  | Inr t \<Rightarrow> Inr (Some t)))))"

text \<open>\<open>/(\d+)\s+seconds?\s+ago/\<close> and \<open>/(\d+)\s+minutes?\s+ago/\<close>\<close>

definition seconds_re :: re where
  "seconds_re =
     seqs [Grp (Plus is_digit), Plus is_space, Lit ''second'', Opt (Lit ''s''),
           Plus is_space, Lit ''ago'']"

definition minutes_re :: re where
  "minutes_re =
     seqs [Grp (Plus is_digit), Plus is_space, Lit ''minute'', Opt (Lit ''s''),
           Plus is_space, Lit ''ago'']"

definition isRecentHandshake :: "string \<Rightarrow> bool" where
  "isRecentHandshake handshakeText =
     (if str_includes handshakeText ''Never'' \<or> str_includes handshakeText ''never'' then False
      else
        (case (case re_match seconds_re handshakeText of
                 Some m \<Rightarrow> Some m
               | None \<Rightarrow> re_match minutes_re handshakeText) of
           None \<Rightarrow> False
         | Some (m0, g, _) \<Rightarrow>
             (let v = (case g of [] \<Rightarrow> NaN | g1 # _ \<Rightarrow> parseInt g1);
                  minute = str_includes m0 ''minute''
              in if \<not> minute \<and> num_le v 180 then True
                 else if minute \<and> num_le v 3 then True
                 else False)))"

section \<open>The transfer unit parser\<close>

text \<open>\<open>parseFloat\<close> on a text of digits and dots: the decimal literal at its start,
  as a pair of the digits read as an integer and the number of digits after the point;
  \<open>None\<close> is NaN. The model computes with exact decimals where the program has doubles.\<close>

definition parseFloat :: "string \<Rightarrow> (int \<times> nat) option" where
  "parseFloat s =
     (let ip = takeWhile is_digit s;
          fp = (case dropWhile is_digit s of
                  [] \<Rightarrow> []
                | c # cs \<Rightarrow> if c = CHR ''.'' then takeWhile is_digit cs else [])
      in if ip = [] \<and> fp = [] then None else Some (radix_val 10 0 (ip @ fp), length fp))"

definition multipliers :: "(string \<times> int) list" where
  "multipliers =
     [(''B'', 1),
      (''KiB'', 1024),
      (''MiB'', 1024 * 1024),
      (''GiB'', 1024 * 1024 * 1024),
      (''TiB'', 1024 * 1024 * 1024 * 1024),
      (''KB'', 1000),
      (''MB'', 1000 * 1000),
      (''GB'', 1000 * 1000 * 1000),
      (''TB'', 1000 * 1000 * 1000 * 1000)]"

text \<open>\<open>/([\d.]+)\s*([KMGT]?i?B)/\<close>\<close>

definition amount_re :: re where
  "amount_re =
     seqs [Grp (Plus (\<lambda>c. is_digit c \<or> c = CHR ''.'')), Star is_space,
           Grp (seqs [Opt (Cls (\<lambda>c. c \<in> set ''KMGT'')), Opt (Lit ''i''), Lit ''B''])]"

definition parseTransferAmount :: "string \<Rightarrow> jsnum" where
  "parseTransferAmount transferText =
     (case re_match amount_re transferText of
        Some (_, [v, unit], _) \<Rightarrow>
          (case parseFloat v of
             None \<Rightarrow> NaN
           | Some (mant, k) \<Rightarrow>
               Num ((mant * (case map_of multipliers unit of Some m \<Rightarrow> m | None \<Rightarrow> 1))
                      div 10 ^ k))
      | _ \<Rightarrow> Num 0)"

section \<open>The status text parser\<close>

datatype peer_status = connected | disconnected | never_connected

text \<open>The objects the parser builds. A field that the program may leave unset has an
  option type, \<open>None\<close> for \<open>undefined\<close>; \<open>lastHandshake\<close> is \<open>undefined\<close>, \<open>null\<close>
  (\<open>Some None\<close>) or a timestamp.\<close>

record wg_interface =
  if_name :: string
  if_publicKey :: "string option"
  listenPort :: "jsnum option"

record wg_peer =
  publicKey :: string
  wg_status :: peer_status
  wg_endpoint :: "string option"
  allowedIps :: "string option"
  lastHandshake :: "int option option"
  transferRx :: "jsnum option"
  transferTx :: "jsnum option"

text \<open>The snapshot. Its \<open>peers\<close> object is an association list in insertion order; an
  assignment to a key it has replaces the value in place. A lookup reads the object's
  own keys.\<close>

record wg_snapshot =
  interface :: "wg_interface option"
  peers :: "(string \<times> wg_peer) list"

record parse_state =
  interface_info :: "wg_interface option"
  peers_acc :: "(string \<times> wg_peer) list"
  currentPeer :: "wg_peer option"

text \<open>\<open>line.split(':')[1].trim()\<close>, a TypeError when the line has no colon, and
  \<open>line.split(':').slice(1).join(':').trim()\<close>.\<close>

definition field1 :: "string \<Rightarrow> error + string" where
  "field1 line = (case split CHR '':'' line of _ # x # _ \<Rightarrow> Inr (trim x) | _ \<Rightarrow> Inl TypeError)"

definition field_rest :: "string \<Rightarrow> string" where
  "field_rest line = trim (join '':'' (drop 1 (split CHR '':'' line)))"

text \<open>\<open>/transfer:\s+(.+?)\s+received,\s+(.+?)\s+sent/\<close>\<close>

definition transfer_re :: re where
  "transfer_re =
     seqs [Lit ''transfer:'', Plus is_space, Grp (PlusLazy is_any), Plus is_space,
           Lit ''received,'', Plus is_space, Grp (PlusLazy is_any), Plus is_space,
           Lit ''sent'']"

definition save_peer :: "wg_peer option \<Rightarrow> (string \<times> wg_peer) list \<Rightarrow> (string \<times> wg_peer) list" where
  "save_peer cur ps = (case cur of None \<Rightarrow> ps | Some p \<Rightarrow> AList.update (publicKey p) p ps)"

text \<open>The body of the loop over the lines.\<close>

definition parse_line :: "int \<Rightarrow> parse_state \<Rightarrow> string \<Rightarrow> error + parse_state" where
  "parse_line now st line =
     (if startsWith line ''interface:'' then
        (case field1 line of
           Inl e \<Rightarrow> Inl e
         | Inr x \<Rightarrow>
             Inr (st\<lparr>interface_info :=
                       Some \<lparr>if_name = x, if_publicKey = None, listenPort = None\<rparr>\<rparr>))
      else if startsWith line ''public key:'' then
        (case currentPeer st of
           Some p \<Rightarrow>
             (case field1 line of
                Inl e \<Rightarrow> Inl e
              | Inr x \<Rightarrow> Inr (st\<lparr>currentPeer := Some (p\<lparr>publicKey := x\<rparr>)\<rparr>))
         | None \<Rightarrow>
             (case interface_info st of
                Some i \<Rightarrow>
                  (case field1 line of
                     Inl e \<Rightarrow> Inl e
                   | Inr x \<Rightarrow> Inr (st\<lparr>interface_info := Some (i\<lparr>if_publicKey := Some x\<rparr>)\<rparr>))
              | None \<Rightarrow> Inr st))
      else if startsWith line ''listening port:'' then
        (case interface_info st of
           Some i \<Rightarrow>
             (case field1 line of
                Inl e \<Rightarrow> Inl e
              | Inr x \<Rightarrow> Inr (st\<lparr>interface_info := Some (i\<lparr>listenPort := Some (parseInt x)\<rparr>)\<rparr>))
         | None \<Rightarrow> Inr st)
      else if startsWith line ''peer:'' then
        (case field1 line of
           Inl e \<Rightarrow> Inl e
         | Inr x \<Rightarrow>
             Inr (st\<lparr>peers_acc := save_peer (currentPeer st) (peers_acc st),
                     currentPeer :=
                       Some \<lparr>publicKey = x, wg_status = connected, wg_endpoint = None,
                             allowedIps = None, lastHandshake = None, transferRx = None,
                             transferTx = None\<rparr>\<rparr>))
      else if startsWith line ''endpoint:'' then
        (case currentPeer st of
           Some p \<Rightarrow> Inr (st\<lparr>currentPeer := Some (p\<lparr>wg_endpoint := Some (field_rest line)\<rparr>)\<rparr>)
         | None \<Rightarrow> Inr st)
      else if startsWith line ''allowed ips:'' then
        (case currentPeer st of
           Some p \<Rightarrow>
             (case field1 line of
                Inl e \<Rightarrow> Inl e
              | Inr x \<Rightarrow> Inr (st\<lparr>currentPeer := Some (p\<lparr>allowedIps := Some x\<rparr>)\<rparr>))
         | None \<Rightarrow> Inr st)
      else if startsWith line ''latest handshake:'' then
        (case currentPeer st of
           Some p \<Rightarrow>
             (let handshakeText = field_rest line
              in (case parseHandshakeTime now handshakeText of
                    Inl e \<Rightarrow> Inl e
                  | Inr t \<Rightarrow>
                      Inr (st\<lparr>currentPeer :=
                                Some (p\<lparr>lastHandshake := Some t,
                                        wg_status := (if isRecentHandshake handshakeText
                                                      then connected else disconnected)\<rparr>)\<rparr>)))
         | None \<Rightarrow> Inr st)
      else if startsWith line ''transfer:'' then
        (case currentPeer st of
           Some p \<Rightarrow>
             (case re_match transfer_re line of
                Some (_, [rx, tx], _) \<Rightarrow>
                  Inr (st\<lparr>currentPeer :=
                            Some (p\<lparr>transferRx := Some (parseTransferAmount rx),
                                    transferTx := Some (parseTransferAmount tx)\<rparr>)\<rparr>)
              | _ \<Rightarrow> Inr st)
         | None \<Rightarrow> Inr st)
      else Inr st)"

fun parse_lines :: "int \<Rightarrow> parse_state \<Rightarrow> string list \<Rightarrow> error + parse_state" where
  "parse_lines now st [] = Inr st"
| "parse_lines now st (line # ls) =
     (case parse_line now st line of Inl e \<Rightarrow> Inl e | Inr st' \<Rightarrow> parse_lines now st' ls)"

definition parseWireGuardOutput :: "int \<Rightarrow> string \<Rightarrow> error + wg_snapshot" where
  "parseWireGuardOutput now output =
     (let lines = filter (\<lambda>line. line \<noteq> []) (map trim (split CHR 0x0A output))
      in (case parse_lines now
                 \<lparr>interface_info = None, peers_acc = [], currentPeer = None\<rparr> lines of
            Inl e \<Rightarrow> Inl e
          | Inr st \<Rightarrow>
              Inr \<lparr>interface = interface_info st,
                   peers = save_peer (currentPeer st) (peers_acc st)\<rparr>))"

section \<open>The process invoker\<close>

text \<open>The fallback snapshot. The clock is read where the program calls \<open>Date.now()\<close>;
  the model takes one reading \<open>now\<close> for a call.\<close>

definition getMockWireGuardStatus :: "int \<Rightarrow> wg_snapshot" where
  "getMockWireGuardStatus now =
     \<lparr>interface =
        Some \<lparr>if_name = ''wg0'',
              if_publicKey = Some ''xCi3cBO9Azd7L1jkKUWUVZNC2uEH7HTPY+05GrMkOUE='',
              listenPort = Some (Num 51820)\<rparr>,
      peers =
        [(''mock_peer_key_1'',
          \<lparr>publicKey = ''mock_peer_key_1'',
           wg_status = connected,
           wg_endpoint = Some ''192.168.1.100:51820'',
           allowedIps = Some ''10.7.0.2/32'',
           lastHandshake = Some (Some (now - 90000)),
           transferRx = Some (Num 1248),
           transferTx = Some (Num 2456)\<rparr>),
         (''mock_peer_key_2'',
          \<lparr>publicKey = ''mock_peer_key_2'',
           wg_status = disconnected,
           wg_endpoint = Some ''192.168.1.101:51820'',
           allowedIps = Some ''10.7.0.3/32'',
           lastHandshake = Some (Some (now - 300000)),
           transferRx = Some (Num 5670),
           transferTx = Some (Num 8900)\<rparr>)]\<rparr>"

text \<open>What running \<open>sudo wg show wg0\<close> gives: the command ran and exited (with its
  success flag, standard output and standard error), or it could not be run and
  \<open>output()\<close> throws.\<close>

datatype cmd_result = Exited bool string string | Not_run

definition cmd_failed :: "cmd_result \<Rightarrow> bool" where
  "cmd_failed res = (case res of Not_run \<Rightarrow> True | Exited success out err \<Rightarrow> \<not> success)"

definition getWireGuardStatus :: "int \<Rightarrow> cmd_result \<Rightarrow> wg_snapshot" where
  "getWireGuardStatus now res =
     (case res of
        Not_run \<Rightarrow> getMockWireGuardStatus now
      | Exited success out err \<Rightarrow>
          if \<not> success then getMockWireGuardStatus now
          else (case parseWireGuardOutput now out of
                  Inl e \<Rightarrow> getMockWireGuardStatus now
                | Inr snapshot \<Rightarrow> snapshot))"

section \<open>The record store\<close>

text \<open>The two tables, with the columns of the migrations; a nullable column has an
  option type. A table is the list of its rows. The migrations also put a trigger on both
  tables that runs before every update and whose function is not among the sources; by
  its name it stamps \<open>updated_at\<close>. The model records in \<open>updated_at\<close> what the
  program writes there, and no statement below says that an update leaves it as it
  was.\<close>

datatype server_status = running | stopped | error_status

record peer_row =
  id' :: string
  user_id :: string
  name :: string
  public_key :: string
  private_key :: string
  allowed_ips :: string
  endpoint :: "string option"
  persistent_keepalive :: "int option"
  status :: peer_status
  last_handshake :: "int option"
  transfer_rx :: "int option"
  transfer_tx :: "int option"
  config_file_path :: "string option"
  created_at :: int
  updated_at :: int

record server_row =
  srv_id :: string
  interface_name :: string
  listen_port :: int
  srv_private_key :: string
  srv_public_key :: string
  network_subnet :: string
  dns_servers :: "string list option"
  srv_endpoint :: "string option"
  srv_status :: server_status
  srv_created_at :: int
  srv_updated_at :: int

record db =
  wireguard_server :: "server_row list"
  wireguard_peers :: "peer_row list"

text \<open>How an awaited request to the store settles. \<open>Fulfilled\<close>: the request took
  effect and the result carries no error. \<open>Failed e\<close>: the request took no effect and
  the result carries the error \<open>e\<close>; this is how the store's client reports a failure,
  and what the program reads where it destructures \<open>error\<close>. \<open>Rejected e\<close>: the
  request took no effect and the \<open>await\<close> throws \<open>e\<close>.\<close>

datatype outcome = Fulfilled | Failed store_error | Rejected error

text \<open>The object passed to \<open>update\<close> on the peers table: \<open>None\<close> for a key that is
  absent or \<open>undefined\<close>, whose column is left as it is; for a nullable column
  \<open>Some None\<close> writes NULL.\<close>

record peer_patch =
  set_status :: "peer_status option"
  set_last_handshake :: "int option option"
  set_transfer_rx :: "int option option"
  set_transfer_tx :: "int option option"
  set_endpoint :: "string option option"
  set_updated_at :: "int option"

definition apply_patch :: "peer_patch \<Rightarrow> peer_row \<Rightarrow> peer_row" where
  "apply_patch u r =
     r\<lparr>status := (case set_status u of None \<Rightarrow> status r | Some v \<Rightarrow> v),
       last_handshake := (case set_last_handshake u of None \<Rightarrow> last_handshake r | Some v \<Rightarrow> v),
       transfer_rx := (case set_transfer_rx u of None \<Rightarrow> transfer_rx r | Some v \<Rightarrow> v),
       transfer_tx := (case set_transfer_tx u of None \<Rightarrow> transfer_tx r | Some v \<Rightarrow> v),
       endpoint := (case set_endpoint u of None \<Rightarrow> endpoint r | Some v \<Rightarrow> v),
       updated_at := (case set_updated_at u of None \<Rightarrow> updated_at r | Some v \<Rightarrow> v)\<rparr>"

text \<open>\<open>update(u)\<close> with its \<open>eq\<close> filters \<open>P\<close>.\<close>

definition update_peers :: "(peer_row \<Rightarrow> bool) \<Rightarrow> peer_patch \<Rightarrow> peer_row list \<Rightarrow> peer_row list" where
  "update_peers P u rows = map (\<lambda>r. if P r then apply_patch u r else r) rows"

section \<open>The reconciliation engine\<close>

text \<open>The object \<open>updateData\<close> of the loop. \<open>x || null\<close> and \<open>x || 0\<close> replace
  \<open>undefined\<close>, \<open>null\<close>, the empty string, 0 and NaN.\<close>

definition updateData :: "wg_snapshot \<Rightarrow> int \<Rightarrow> peer_row \<Rightarrow> peer_patch" where
  "updateData wgStatus now dbPeer =
     (let wgPeer = map_of (peers wgStatus) (public_key dbPeer)
      in \<lparr>set_status = Some (case wgPeer of Some p \<Rightarrow> wg_status p | None \<Rightarrow> disconnected),
          set_last_handshake =
            Some (case wgPeer of
                    Some p \<Rightarrow> (case lastHandshake p of Some (Some t) \<Rightarrow> Some t | _ \<Rightarrow> None)
                  | None \<Rightarrow> None),
          set_transfer_rx =
            Some (Some (case wgPeer of
                          Some p \<Rightarrow> (case transferRx p of Some (Num n) \<Rightarrow> n | _ \<Rightarrow> 0)
                        | None \<Rightarrow> 0)),
          set_transfer_tx =
            Some (Some (case wgPeer of
                          Some p \<Rightarrow> (case transferTx p of Some (Num n) \<Rightarrow> n | _ \<Rightarrow> 0)
                        | None \<Rightarrow> 0)),
          set_endpoint =
            Some (case wgPeer of
                    Some p \<Rightarrow> (case wg_endpoint p of
                                 Some e \<Rightarrow> if e = [] then None else Some e
                               | None \<Rightarrow> None)
                  | None \<Rightarrow> None),
          set_updated_at = Some now\<rparr>)"

text \<open>What the calls of one run meet: the clock, the result of the status command, and
  how each request to the store settles (the update of a peer by the id of its row).\<close>

record sync_env =
  clock :: int
  wg_show :: cmd_result
  on_server_select :: outcome
  on_server_update :: outcome
  on_peers_select :: outcome
  on_peer_update :: "string \<Rightarrow> outcome"

text \<open>The loop over \<open>dbPeers\<close>, on the table and the counter \<open>updatedCount\<close>. The
  counter is stepped after the \<open>await\<close>, whatever result it gave; only a rejection
  enters the \<open>catch\<close>.\<close>

fun sync_loop ::
  "wg_snapshot \<Rightarrow> int \<Rightarrow> (string \<Rightarrow> outcome) \<Rightarrow> peer_row list \<Rightarrow> peer_row list \<times> nat \<Rightarrow>
     peer_row list \<times> nat" where
  "sync_loop wgStatus now upd [] (rows, updatedCount) = (rows, updatedCount)"
| "sync_loop wgStatus now upd (dbPeer # rest) (rows, updatedCount) =
     (case upd (id' dbPeer) of
        Fulfilled \<Rightarrow>
          sync_loop wgStatus now upd rest
            (update_peers (\<lambda>r. id' r = id' dbPeer) (updateData wgStatus now dbPeer) rows,
             Suc updatedCount)
      | Failed e \<Rightarrow> sync_loop wgStatus now upd rest (rows, Suc updatedCount)
      | Rejected e \<Rightarrow> sync_loop wgStatus now upd rest (rows, updatedCount))"

text \<open>The update of the server row. A key whose value is \<open>undefined\<close> is not sent; a
  listen port that is NaN is sent as \<open>null\<close>, which the column refuses.\<close>

definition update_server :: "wg_snapshot \<Rightarrow> int \<Rightarrow> string \<Rightarrow> server_row list \<Rightarrow> server_row list" where
  "update_server wgStatus now sid rows =
     (case interface wgStatus of
        None \<Rightarrow>
          map (\<lambda>r. if srv_id r = sid then r\<lparr>srv_status := stopped, srv_updated_at := now\<rparr> else r) rows
      | Some i \<Rightarrow>
          if listenPort i = Some NaN then rows
          else
            map (\<lambda>r. if srv_id r = sid then
                        r\<lparr>srv_status := running,
                          srv_public_key :=
                            (case if_publicKey i of None \<Rightarrow> srv_public_key r | Some k \<Rightarrow> k),
                          listen_port :=
                            (case listenPort i of Some (Num n) \<Rightarrow> n | _ \<Rightarrow> listen_port r),
                          srv_updated_at := now\<rparr>
                      else r) rows)"

text \<open>The response: \<open>{success: true, interface, peersUpdated}\<close>, or the status 500
  with the message of what was thrown.\<close>

datatype sync_response = Synced "wg_interface option" nat | Sync_failed error

definition syncWireGuardStatus :: "sync_env \<Rightarrow> db \<Rightarrow> sync_response \<times> db" where
  "syncWireGuardStatus env d =
     (let wgStatus = getWireGuardStatus (clock env) (wg_show env)
      in (case on_server_select env of
            Rejected e \<Rightarrow> (Sync_failed e, d)
          | sel \<Rightarrow>
              (let existingServer =
                     (if sel = Fulfilled then
                        (case wireguard_server d of [] \<Rightarrow> None | r # _ \<Rightarrow> Some r)
                      else None)
               in (case (existingServer, on_server_update env) of
                     (Some r, Rejected e) \<Rightarrow> (Sync_failed e, d)
                   | (ex, upd) \<Rightarrow>
                       (let d1 =
                              (case ex of
                                 Some r \<Rightarrow>
                                   if upd = Fulfilled then
                                     d\<lparr>wireguard_server :=
                                         update_server wgStatus (clock env) (srv_id r)
                                           (wireguard_server d)\<rparr>
                                   else d
                               | None \<Rightarrow> d)
                        in (case on_peers_select env of
                              Rejected e \<Rightarrow> (Sync_failed e, d1)
                            | Failed e \<Rightarrow> (Sync_failed (Error ''Failed to fetch peers: '' (Some e)), d1)
                            | Fulfilled \<Rightarrow>
                                (let (rows, updatedCount) =
                                       sync_loop wgStatus (clock env) (on_peer_update env)
                                         (wireguard_peers d1) (wireguard_peers d1, 0)
                                 in (Synced (interface wgStatus) updatedCount,
                                     d1\<lparr>wireguard_peers := rows\<rparr>))))))))"


section \<open>The status of one peer\<close>





section \<open>The peer lifecycle manager\<close>






record create_result =
  peer :: peer_row
  configContent :: string



definition forget_handshake :: "string \<times> wg_peer \<Rightarrow> string \<times> wg_peer" where
  "forget_handshake kp = (fst kp, (snd kp)\<lparr>lastHandshake := None\<rparr>)"

section \<open>Concrete inputs\<close>

text \<open>The status text of the specification's example, its lines joined by line feeds.\<close>

definition status_text :: string where
  "status_text =
     join [CHR 0x0A]
       [''interface: wg0'', ''public key: SERVERKEY'', ''listening port: 51820'',
        ''peer: PEERKEY1'', ''endpoint: 1.2.3.4:51820'', ''allowed ips: 10.7.0.2/32'',
        ''latest handshake: 10 seconds ago'',
        ''transfer: 1.00 MiB received, 500.00 KiB sent'']"

text \<open>A store with the server row of the migrations and three peers: the first two
  carry the keys of the fallback snapshot, the third a key no snapshot below has.\<close>

definition example_server :: server_row where
  "example_server =
     \<lparr>srv_id = ''server-1'', interface_name = ''wg0'', listen_port = 51820,
      srv_private_key = ''GENERATE_SERVER_PRIVATE_KEY'',
      srv_public_key = ''xCi3cBO9Azd7L1jkKUWUVZNC2uEH7HTPY+05GrMkOUE='',
      network_subnet = ''10.7.0.0/24'', dns_servers = Some [''1.1.1.1'', ''8.8.8.8''],
      srv_endpoint = Some ''vpn.techpinoy.net:51820'', srv_status = running,
      srv_created_at = 1690000000000, srv_updated_at = 1690000000000\<rparr>"

definition example_row :: "string \<Rightarrow> string \<Rightarrow> peer_row" where
  "example_row i k =
     \<lparr>id' = i, user_id = ''user-1'', name = ''peer-'' @ i, public_key = k,
      private_key = ''PRIVATE'', allowed_ips = ''10.7.0.2/32'',
      endpoint = Some ''203.0.113.9:40000'', persistent_keepalive = Some 25,
      status = connected, last_handshake = Some 1699999000000, transfer_rx = Some 700,
      transfer_tx = Some 900, config_file_path = None, created_at = 1690000000000,
      updated_at = 1699999000000\<rparr>"

definition example_db :: db where
  "example_db =
     \<lparr>wireguard_server = [example_server],
      wireguard_peers =
        [example_row ''1'' ''mock_peer_key_1'', example_row ''2'' ''mock_peer_key_2'',
         example_row ''3'' ''KEY3'']\<rparr>"

text \<open>A run in which the status command cannot be run and every request to the store
  takes effect; and the same run with the update of the second peer refused by the
  store.\<close>

definition fallback_env :: sync_env where
  "fallback_env =
     \<lparr>clock = 1700000000000, wg_show = Not_run, on_server_select = Fulfilled,
      on_server_update = Fulfilled, on_peers_select = Fulfilled,
      on_peer_update = (\<lambda>i. Fulfilled)\<rparr>"

definition second_refused_env :: sync_env where
  "second_refused_env =
     fallback_env\<lparr>on_peer_update :=
       (\<lambda>i. if i = ''2'' then Failed (Store_failure ''connection lost'') else Fulfilled)\<rparr>"






section \<open>The search for all matches\<close>

lemma matches_rest: "(g, rest) \<in> set (matches r s) \<Longrightarrow> length rest \<le> length s"
proof (induction r arbitrary: s g rest)
  case (Seq a b)
  then obtain g1 r1 g2 where "(g1, r1) \<in> set (matches a s)" and "(g2, rest) \<in> set (matches b r1)"
    by auto
  then have "length r1 \<le> length s" and "length rest \<le> length r1"
    using Seq.IH by blast+
  then show ?case by simp
qed (auto split: if_splits list.splits)

lemma re_match_rest:
  "re_match r s = Some (m0, g, rest) \<Longrightarrow>
   length rest \<le> length s \<and> (m0 \<noteq> [] \<longrightarrow> length rest < length s)"
proof (induction s)
  case Nil
  then show ?case
    using matches_rest [of _ _ r "[]"] by (auto split: list.splits)
next
  case (Cons c cs)
  show ?case
  proof (cases "matches r (c # cs)")
    case Nil
    then show ?thesis using Cons by auto
  next
    case (Cons p ps)
    then have "(fst p, snd p) \<in> set (matches r (c # cs))" by simp
    then have "length (snd p) \<le> length (c # cs)" by (rule matches_rest)
    then show ?thesis using Cons Cons.prems by (cases p) auto
  qed
qed

text \<open>More rounds than \<open>length s + 1\<close> find the same matches.\<close>

lemma match_rounds_enough:
  "length s < n \<Longrightarrow> length s < m \<Longrightarrow> match_rounds n r s = match_rounds m r s"
proof (induction n arbitrary: m s)
  case 0
  then show ?case by simp
next
  case (Suc n)
  then obtain m' where m: "m = Suc m'" by (cases m) auto
  show ?case
  proof (cases "re_match r s")
    case None
    then show ?thesis by (simp add: m)
  next
    case (Some t)
    then obtain m0 g rest where t: "re_match r s = Some (m0, g, rest)" by (cases t) auto
    note b = re_match_rest [OF t]
    show ?thesis
    proof (cases "m0 = []")
      case True
      show ?thesis
      proof (cases rest)
        case Nil
        then show ?thesis by (simp add: m t True)
      next
        case (Cons x xs)
        then have "length xs < n" "length xs < m'"
          using b Suc.prems m by auto
        then show ?thesis
          using Suc.IH [of xs m'] by (simp add: m t True Cons)
      qed
    next
      case False
      then have "length rest < n" "length rest < m'"
        using b Suc.prems m by auto
      then show ?thesis
        using Suc.IH [of rest m'] by (simp add: m t False)
    qed
  qed
qed

lemma match_all_enough: "length s < n \<Longrightarrow> match_rounds n r s = match_all r s"
  unfolding match_all_def by (rule match_rounds_enough) simp_all

section \<open>The parsers on the examples\<close>

lemma isRecentHandshake_examples:
  "isRecentHandshake ''90 seconds ago''"
  "\<not> isRecentHandshake ''5 minutes ago''"
  "\<not> isRecentHandshake ''never''"
  by code_simp+

text \<open>
  C1 (the code departs from the claim). The claim: the recency predicate is true exactly
  for the texts that resolve to at most 180 seconds ago. The code looks for the first
  clause in seconds only, and for a clause in minutes when there is none; the larger
  units in front of it are not read. On the handshake text of the source's own comment,
  1 hour, 21 minutes and 2 seconds ago (4862 seconds), the predicate is true.
\<close>

theorem isRecentHandshake_ignores_larger_units:
  "isRecentHandshake ''1 hour, 21 minutes, 2 seconds ago''"
  by code_simp

lemma long_handshake_matches:
  "match_all handshake_re ''1 hour, 21 minutes, 2 seconds ago'' = [''2 seconds ago'']"
  by code_simp

lemma long_handshake_clause: "add_clause ''2 seconds ago'' (Num 0) = Num 2"
  by code_simp

lemma long_handshake_never:
  "\<not> str_includes ''1 hour, 21 minutes, 2 seconds ago'' ''Never''"
  "\<not> str_includes ''1 hour, 21 minutes, 2 seconds ago'' ''never''"
  by code_simp+

text \<open>
  C2 (the code departs from the claim). The claim: every clause of a relative duration
  is summed, so that 1 hour, 21 minutes, 2 seconds ago is the clock reading less 4862
  seconds. The regular expression of the code wants the word ago after each clause, and
  the status command prints it once, at the end: only the last clause matches, and the
  result is the clock reading less 2 seconds (2000 milliseconds), for every clock
  reading that is a time value of a date.
\<close>

theorem parseHandshakeTime_last_clause_only:
  "parseHandshakeTime now ''1 hour, 21 minutes, 2 seconds ago'' =
     (if \<bar>now - 2000\<bar> \<le> 8640000000000000 then Inr (Some (now - 2000)) else Inl RangeError)"
  by (simp add: parseHandshakeTime_def long_handshake_matches long_handshake_clause
      long_handshake_never toISOString_def)

lemma status_text_lines:
  "filter (\<lambda>line. line \<noteq> []) (map trim (split CHR 0x0A status_text)) =
     [''interface: wg0'', ''public key: SERVERKEY'', ''listening port: 51820'',
      ''peer: PEERKEY1'', ''endpoint: 1.2.3.4:51820'', ''allowed ips: 10.7.0.2/32'',
      ''latest handshake: 10 seconds ago'',
      ''transfer: 1.00 MiB received, 500.00 KiB sent'']"
  by code_simp

lemma ten_seconds_matches: "match_all handshake_re ''10 seconds ago'' = [''10 seconds ago'']"
  by code_simp

lemma ten_seconds_clause: "add_clause ''10 seconds ago'' (Num 0) = Num 10"
  by code_simp

lemma ten_seconds_never:
  "\<not> str_includes ''10 seconds ago'' ''Never''"
  "\<not> str_includes ''10 seconds ago'' ''never''"
  by code_simp+

lemma ten_seconds_time:
  "parseHandshakeTime now ''10 seconds ago'' =
     (if \<bar>now - 10000\<bar> \<le> 8640000000000000 then Inr (Some (now - 10000)) else Inl RangeError)"
  by (simp add: parseHandshakeTime_def ten_seconds_matches ten_seconds_clause
      ten_seconds_never toISOString_def)

lemma ten_seconds_recent: "isRecentHandshake ''10 seconds ago''"
  by code_simp

lemma status_text_fields:
  "field1 ''interface: wg0'' = Inr ''wg0''"
  "field1 ''public key: SERVERKEY'' = Inr ''SERVERKEY''"
  "field1 ''listening port: 51820'' = Inr ''51820''"
  "field1 ''peer: PEERKEY1'' = Inr ''PEERKEY1''"
  "field_rest ''endpoint: 1.2.3.4:51820'' = ''1.2.3.4:51820''"
  "field1 ''allowed ips: 10.7.0.2/32'' = Inr ''10.7.0.2/32''"
  "field_rest ''latest handshake: 10 seconds ago'' = ''10 seconds ago''"
  "parseInt ''51820'' = Num 51820"
  by code_simp+

lemma status_text_transfer:
  "re_match transfer_re ''transfer: 1.00 MiB received, 500.00 KiB sent'' =
     Some (''transfer: 1.00 MiB received, 500.00 KiB sent'', [''1.00 MiB'', ''500.00 KiB''], [])"
  "parseTransferAmount ''1.00 MiB'' = Num 1048576"
  "parseTransferAmount ''500.00 KiB'' = Num 512000"
  by code_simp+

text \<open>
  C3. On the status text of the example the parser gives the interface wg0 and exactly
  one peer entry, under the key PEERKEY1, with status connected, transferRx 1048576,
  transferTx 512000 and endpoint 1.2.3.4:51820; its handshake is the clock reading less
  10 seconds. This holds for every clock reading that is a time value of a date (within
  8.64e15 milliseconds of the epoch, as every reading of the clock is); beyond that range
  \<open>toISOString\<close> throws.
\<close>

theorem parseWireGuardOutput_example:
  "parseWireGuardOutput now status_text =
     (if \<bar>now - 10000\<bar> \<le> 8640000000000000 then
        Inr \<lparr>interface =
               Some \<lparr>if_name = ''wg0'', if_publicKey = Some ''SERVERKEY'',
                     listenPort = Some (Num 51820)\<rparr>,
             peers =
               [(''PEERKEY1'',
                 \<lparr>publicKey = ''PEERKEY1'', wg_status = connected,
                  wg_endpoint = Some ''1.2.3.4:51820'',
                  allowedIps = Some ''10.7.0.2/32'',
                  lastHandshake = Some (Some (now - 10000)),
                  transferRx = Some (Num 1048576),
                  transferTx = Some (Num 512000)\<rparr>)]\<rparr>
      else Inl RangeError)"
  by (simp add: parseWireGuardOutput_def status_text_lines parse_line_def status_text_fields
      status_text_transfer ten_seconds_time ten_seconds_recent save_peer_def
      del: re_match.simps)

section \<open>The reconciliation loop, row by row\<close>

lemma apply_patch_keys [simp]:
  "id' (apply_patch u r) = id' r"
  "public_key (apply_patch u r) = public_key r"
  "user_id (apply_patch u r) = user_id r"
  by (simp_all add: apply_patch_def)






text \<open>The counter counts every update that did not throw, refused ones too.\<close>

lemma sync_loop_count:
  "snd (sync_loop snap now upd ps (rows, n)) =
     n + length (filter (\<lambda>p. case upd (id' p) of Rejected e \<Rightarrow> False | _ \<Rightarrow> True) ps)"
  by (induction ps arbitrary: rows n) (auto split: outcome.splits)








section \<open>Two runs of the reconciliation\<close>





section \<open>Partial failure and the server row\<close>

text \<open>
  C6 (the code departs from the claim). The claim: a failure persisting one record does
  not stop the others, and \<open>peersUpdated\<close> counts the records persisted. With three
  peers and the update of the second refused by the store, the first and the third row
  are updated and the second is as it was, as claimed; but the run reports
  \<open>peersUpdated\<close> 3, not 2. The store's client reports a refusal in the \<open>error\<close> of
  its result (the other functions of the file read it there); the loop does not read
  the result and steps its counter (\<open>sync_loop_count\<close>).
\<close>

theorem sync_counts_refused_update:
  "fst (syncWireGuardStatus second_refused_env example_db) =
     Synced (Some \<lparr>if_name = ''wg0'',
                   if_publicKey = Some ''xCi3cBO9Azd7L1jkKUWUVZNC2uEH7HTPY+05GrMkOUE='',
                   listenPort = Some (Num 51820)\<rparr>) 3
   \<and> wireguard_peers (snd (syncWireGuardStatus second_refused_env example_db)) =
       [(example_row ''1'' ''mock_peer_key_1'')
          \<lparr>endpoint := Some ''192.168.1.100:51820'', status := connected,
           last_handshake := Some 1699999910000, transfer_rx := Some 1248,
           transfer_tx := Some 2456, updated_at := 1700000000000\<rparr>,
        example_row ''2'' ''mock_peer_key_2'',
        (example_row ''3'' ''KEY3'')
          \<lparr>endpoint := None, status := disconnected, last_handshake := None,
           transfer_rx := Some 0, transfer_tx := Some 0, updated_at := 1700000000000\<rparr>]"
  by code_simp

text \<open>Where the server table has its one row and both requests take effect, the row is
  updated from the snapshot's interface.\<close>

lemma sync_updates_server_row:
  assumes "wireguard_server d = [row]"
    and "on_server_select env = Fulfilled" and "on_server_update env = Fulfilled"
  shows "wireguard_server (snd (syncWireGuardStatus env d)) =
           update_server (getWireGuardStatus (clock env) (wg_show env)) (clock env) (srv_id row) [row]"
  using assms
  by (auto simp: syncWireGuardStatus_def Let_def
      split: outcome.splits option.splits list.splits prod.splits)

lemma update_server_row:
  "update_server snap now (srv_id row) [row] =
     (case interface snap of
        None \<Rightarrow> [row\<lparr>srv_status := stopped, srv_updated_at := now\<rparr>]
      | Some i \<Rightarrow>
          if listenPort i = Some NaN then [row]
          else [row\<lparr>srv_status := running,
                    srv_public_key := (case if_publicKey i of None \<Rightarrow> srv_public_key row | Some k \<Rightarrow> k),
                    listen_port := (case listenPort i of Some (Num n) \<Rightarrow> n | _ \<Rightarrow> listen_port row),
                    srv_updated_at := now\<rparr>])"
  by (simp add: update_server_def split: option.splits)

text \<open>
  C7 (the code departs from the claim). The claim: every run upserts the server row,
  creating it when there is none. The code, under the comment that it uses an upsert to
  handle the empty table, updates the row it selected and does nothing when it selected
  none: from an empty server table every run, whatever it meets, leaves the table empty.
\<close>

theorem sync_never_creates_server_row:
  "wireguard_server (snd (syncWireGuardStatus env (d\<lparr>wireguard_server := []\<rparr>))) = []"
  by (auto simp: syncWireGuardStatus_def Let_def
      split: outcome.splits option.splits list.splits prod.splits)


section \<open>The fallback snapshot\<close>

text \<open>
  C8, as stated, fails: the fallback snapshot holds handshake times computed from the
  clock, so two invocations thirty seconds apart differ.
\<close>

theorem fallback_differs_with_clock:
  "getWireGuardStatus 1700000000000 Not_run \<noteq> getWireGuardStatus 1700000030000 Not_run"
  by (simp add: getWireGuardStatus_def getMockWireGuardStatus_def)

text \<open>
  C8, amended. On every failure of the status command (it could not be run, or it exited
  without success) the status query returns the fallback snapshot, a function of the clock
  reading alone. Any two such invocations give the same interface and the same peer
  entries but for \<open>lastHandshake\<close>, which is 90 seconds before the clock reading for the
  first peer and 300 seconds before it for the second.
\<close>

theorem fallback_fixed_except_handshake:
  assumes "cmd_failed res1" and "cmd_failed res2"
  shows "getWireGuardStatus now1 res1 = getMockWireGuardStatus now1
       \<and> interface (getWireGuardStatus now1 res1) = interface (getWireGuardStatus now2 res2)
       \<and> map forget_handshake (peers (getWireGuardStatus now1 res1)) =
           map forget_handshake (peers (getWireGuardStatus now2 res2))
       \<and> map (\<lambda>kp. lastHandshake (snd kp)) (peers (getWireGuardStatus now1 res1)) =
           [Some (Some (now1 - 90000)), Some (Some (now1 - 300000))]"
proof -
  have "getWireGuardStatus now res = getMockWireGuardStatus now" if "cmd_failed res" for now res
    using that by (cases res) (simp_all add: getWireGuardStatus_def cmd_failed_def)
  then show ?thesis
    using assms by (simp add: getMockWireGuardStatus_def forget_handshake_def)
qed

text \<open>
  The amended statement for a command that cannot be run and one that is refused.
\<close>

theorem fallback_fixed_except_handshake_witness:
  "cmd_failed Not_run \<and> cmd_failed (Exited False [] ''Unable to access interface: Operation not permitted'')
   \<and> getWireGuardStatus 1700000000000 Not_run = getMockWireGuardStatus 1700000000000
   \<and> interface (getWireGuardStatus 1700000000000 Not_run) =
       interface (getWireGuardStatus 1700000030000
                   (Exited False [] ''Unable to access interface: Operation not permitted''))
   \<and> map forget_handshake (peers (getWireGuardStatus 1700000000000 Not_run)) =
       map forget_handshake
         (peers (getWireGuardStatus 1700000030000
                   (Exited False [] ''Unable to access interface: Operation not permitted'')))
   \<and> map (\<lambda>kp. lastHandshake (snd kp)) (peers (getWireGuardStatus 1700000000000 Not_run)) =
       [Some (Some (1700000000000 - 90000)), Some (Some (1700000000000 - 300000))]"
proof -
  have h1: "cmd_failed Not_run"
    by (simp add: cmd_failed_def)
  have h2: "cmd_failed (Exited False [] ''Unable to access interface: Operation not permitted'')"
    by (simp add: cmd_failed_def)
  from fallback_fixed_except_handshake [OF h1 h2, of 1700000000000 1700000030000] h1 h2
  show ?thesis
    by (intro conjI) blast+
qed

section \<open>Creating a peer\<close>




section \<open>The status of one absent peer\<close>








end
